theory Spec2Isabelle
  imports Complex_Main
begin

section \<open>Values held in the corpus table\<close>

text \<open>
  The script \<^verbatim>\<open>predict_level.py\<close> reads a pandas table \<^verbatim>\<open>df_master\<close> and predicts a
  level for each word of its command line. A cell of a numeric column is a float64: a
  number or NaN. Numbers are modelled as reals (the rounding of the machine's doubles
  is not modelled; comparisons and the handling of NaN are as in the program); where
  the range of doubles matters, for the ordering of the thresholds, the computation is
  given again with infinities and overflow. A cell of a text column is a string, or
  NaN where the file has an empty cell.
\<close>

datatype fval = NaN | Fin real

datatype sval = SNaN | Str string

text \<open>
  One row of \<^verbatim>\<open>df_master\<close>. The columns \<^verbatim>\<open>lemme\<close>, \<^verbatim>\<open>cgram\<close>, \<^verbatim>\<open>freqlemfilms2\<close> and
  \<^verbatim>\<open>freqlemlivres\<close> are required; \<^verbatim>\<open>genre\<close> is optional, and \<open>None\<close> stands for a table
  without that column.
\<close>

record corpus_row =
  lemme :: sval
  cgram :: sval
  genre :: "sval option"
  freqlemfilms2 :: fval
  freqlemlivres :: fval

type_synonym dataframe = "corpus_row list"

text \<open>One row of the table \<^verbatim>\<open>prepare_input\<close> builds (keys \<^verbatim>\<open>lemme\<close>, \<^verbatim>\<open>cgram\<close>,
  \<^verbatim>\<open>genre\<close>, \<^verbatim>\<open>avg_freq\<close>).\<close>

record feature =
  in_lemme :: sval
  in_cgram :: sval
  in_genre :: sval
  avg_freq :: fval

section \<open>Python and pandas operations used by the script\<close>

text \<open>Float addition and division by two: NaN propagates.\<close>

fun fadd :: "fval \<Rightarrow> fval \<Rightarrow> fval" where
  "fadd (Fin a) (Fin b) = Fin (a + b)"
| "fadd _ _ = NaN"

fun fhalf :: "fval \<Rightarrow> fval" where
  "fhalf (Fin a) = Fin (a / 2)"
| "fhalf NaN = NaN"

text \<open>Float comparison \<^verbatim>\<open>a >= b\<close> and \<^verbatim>\<open>a < b\<close>: false as soon as one side is NaN.\<close>

fun fge :: "fval \<Rightarrow> fval \<Rightarrow> bool" where
  "fge (Fin a) (Fin b) = (b \<le> a)"
| "fge _ _ = False"

fun flt :: "fval \<Rightarrow> fval \<Rightarrow> bool" where
  "flt (Fin a) (Fin b) = (a < b)"
| "flt _ _ = False"

text \<open>
  Python's \<^verbatim>\<open>x or d\<close> returns \<open>x\<close> when \<open>x\<close> is truthy and \<open>d\<close> otherwise. Among floats
  only zero is falsy (NaN is truthy); among the values of a text cell only the empty
  string is falsy (a NaN cell is the float NaN, truthy).
\<close>

fun or_float :: "fval \<Rightarrow> fval \<Rightarrow> fval" where
  "or_float (Fin a) d = (if a = 0 then d else Fin a)"
| "or_float NaN d = NaN"

fun or_str :: "sval \<Rightarrow> sval \<Rightarrow> sval" where
  "or_str (Str s) d = (if s = [] then d else Str s)"
| "or_str SNaN d = SNaN"

text \<open>
  A string is the sequence of the bytes of its UTF-8 form, as the corpus file and the
  command line hold it. \<^verbatim>\<open>str.strip()\<close> removes the whitespace characters at both
  ends: the characters for which \<^verbatim>\<open>str.isspace\<close> holds, which are U+0009 to U+000D,
  U+001C to U+0020, U+0085, U+00A0, U+1680, U+2000 to U+200A, U+2028, U+2029, U+202F,
  U+205F and U+3000. \<open>is_space\<close> holds of the UTF-8 form of one such character (one,
  two or three bytes).
\<close>

fun is_space :: "string \<Rightarrow> bool" where
  "is_space [c] = (of_char c \<in> {9, 10, 11, 12, 13, 28, 29, 30, 31, 32 :: nat})"
| "is_space [c, d] = (of_char c = (0xC2 :: nat) \<and> of_char d \<in> {0x85, 0xA0 :: nat})"
| "is_space [c, d, e] =
     (of_char c = (0xE1 :: nat) \<and> of_char d = (0x9A :: nat) \<and> of_char e = (0x80 :: nat)
    \<or> of_char c = (0xE2 :: nat) \<and> of_char d = (0x80 :: nat)
        \<and> ((0x80 :: nat) \<le> of_char e \<and> of_char e \<le> (0x8A :: nat)
           \<or> of_char e \<in> {0xA8, 0xA9, 0xAF :: nat})
    \<or> of_char c = (0xE2 :: nat) \<and> of_char d = (0x81 :: nat) \<and> of_char e = (0x9F :: nat)
    \<or> of_char c = (0xE3 :: nat) \<and> of_char d = (0x80 :: nat) \<and> of_char e = (0x80 :: nat))"
| "is_space _ = False"

text \<open>Whitespace removed at the front, one character at a time.\<close>

fun lstrip :: "string \<Rightarrow> string" where
  "lstrip (c # d # e # s) =
     (if is_space [c] then lstrip (d # e # s)
      else if is_space [c, d] then lstrip (e # s)
      else if is_space [c, d, e] then lstrip s
      else c # d # e # s)"
| "lstrip [c, d] =
     (if is_space [c] then lstrip [d] else if is_space [c, d] then [] else [c, d])"
| "lstrip [c] = (if is_space [c] then [] else [c])"
| "lstrip [] = []"

text \<open>Whitespace removed at the end: the same walk over the bytes from the last one
  backwards, so the bytes of a character come in reverse.\<close>

fun rstrip_rev :: "string \<Rightarrow> string" where
  "rstrip_rev (e # d # c # s) =
     (if is_space [e] then rstrip_rev (d # c # s)
      else if is_space [d, e] then rstrip_rev (c # s)
      else if is_space [c, d, e] then rstrip_rev s
      else e # d # c # s)"
| "rstrip_rev [e, d] =
     (if is_space [e] then rstrip_rev [d] else if is_space [d, e] then [] else [e, d])"
| "rstrip_rev [e] = (if is_space [e] then [] else [e])"
| "rstrip_rev [] = []"

definition rstrip :: "string \<Rightarrow> string" where
  "rstrip s = rev (rstrip_rev (rev s))"

definition strip :: "string \<Rightarrow> string" where
  "strip s = rstrip (lstrip s)"

text \<open>
  Text that standard output can always encode: well-formed UTF-8 (a byte of the command
  line that is not part of a well-formed sequence becomes a lone surrogate in Python,
  which \<^verbatim>\<open>print\<close> refuses on a strict stream).
\<close>

definition cont :: "char \<Rightarrow> bool" where
  "cont b = ((0x80 :: nat) \<le> of_char b \<and> of_char b \<le> (0xBF :: nat))"

definition seq2 :: "char \<Rightarrow> char \<Rightarrow> bool" where
  "seq2 a b = ((0xC2 :: nat) \<le> of_char a \<and> of_char a \<le> (0xDF :: nat) \<and> cont b)"

definition seq3 :: "char \<Rightarrow> char \<Rightarrow> char \<Rightarrow> bool" where
  "seq3 a b c =
     (cont c \<and>
      (of_char a = (0xE0 :: nat) \<and> (0xA0 :: nat) \<le> of_char b \<and> of_char b \<le> (0xBF :: nat)
       \<or> (0xE1 :: nat) \<le> of_char a \<and> of_char a \<le> (0xEC :: nat) \<and> cont b
       \<or> of_char a = (0xED :: nat) \<and> (0x80 :: nat) \<le> of_char b \<and> of_char b \<le> (0x9F :: nat)
       \<or> (0xEE :: nat) \<le> of_char a \<and> of_char a \<le> (0xEF :: nat) \<and> cont b))"

definition seq4 :: "char \<Rightarrow> char \<Rightarrow> char \<Rightarrow> char \<Rightarrow> bool" where
  "seq4 a b c d =
     (cont c \<and> cont d \<and>
      (of_char a = (0xF0 :: nat) \<and> (0x90 :: nat) \<le> of_char b \<and> of_char b \<le> (0xBF :: nat)
       \<or> (0xF1 :: nat) \<le> of_char a \<and> of_char a \<le> (0xF3 :: nat) \<and> cont b
       \<or> of_char a = (0xF4 :: nat) \<and> (0x80 :: nat) \<le> of_char b \<and> of_char b \<le> (0x8F :: nat)))"

fun well_formed :: "string \<Rightarrow> bool" where
  "well_formed [] = True"
| "well_formed (a # s) =
     (if of_char a < (0x80 :: nat) then well_formed s
      else
        (case s of
           [] \<Rightarrow> False
         | b # s1 \<Rightarrow>
             if seq2 a b then well_formed s1
             else
               (case s1 of
                  [] \<Rightarrow> False
                | c # s2 \<Rightarrow>
                    if seq3 a b c then well_formed s2
                    else
                      (case s2 of
                         [] \<Rightarrow> False
                       | d # s3 \<Rightarrow> if seq4 a b c d then well_formed s3 else False))))"

text \<open>
  The mean of pandas with \<^verbatim>\<open>skipna=True\<close> (the default of \<^verbatim>\<open>Series.mean\<close>, and written
  out in \<^verbatim>\<open>mean(axis=1, skipna=True)\<close>): NaN entries are left out, and the mean of no
  entry is NaN.
\<close>

fun present :: "fval list \<Rightarrow> real list" where
  "present [] = []"
| "present (NaN # xs) = present xs"
| "present (Fin a # xs) = a # present xs"

definition mean_skipna :: "fval list \<Rightarrow> fval" where
  "mean_skipna xs =
     (let vs = present xs
      in if vs = [] then NaN else Fin (sum_list vs / real (length vs)))"

text \<open>\<^verbatim>\<open>df_master[['freqlemfilms2','freqlemlivres']].mean(axis=1, skipna=True)\<close>.\<close>

definition row_means :: "dataframe \<Rightarrow> fval list" where
  "row_means df = map (\<lambda>r. mean_skipna [freqlemfilms2 r, freqlemlivres r]) df"

text \<open>\<^verbatim>\<open>Series.fillna(0)\<close>.\<close>

fun fillna0 :: "fval \<Rightarrow> fval" where
  "fillna0 NaN = Fin 0"
| "fillna0 (Fin a) = Fin a"

text \<open>Exceptions that end a run.\<close>

datatype exn =
    SystemExit_msg string
  | SystemExit_code nat
  | IndexError
  | ArtifactError string

text \<open>
  \<^verbatim>\<open>np.percentile(a, q)\<close> with the default linear method: on the sorted data, the value
  at the virtual index \<open>(n - 1) * q / 100\<close>, interpolated linearly between its two
  neighbours. A NaN in the data makes the result NaN. On an empty array numpy (1.22 and
  later) has no last element to read and raises IndexError.
\<close>

definition interpolate :: "real list \<Rightarrow> real \<Rightarrow> real" where
  "interpolate s h =
     (let lo = nat \<lfloor>h\<rfloor>;
          hi = min (lo + 1) (length s - 1);
          g = h - real lo
      in s ! lo + (s ! hi - s ! lo) * g)"

definition np_percentile :: "fval list \<Rightarrow> real \<Rightarrow> exn + fval" where
  "np_percentile a q =
     (if a = [] then Inl IndexError
      else if NaN \<in> set a then Inr NaN
      else Inr (Fin (interpolate (sort (present a)) (real (length a - 1) * (q / 100)))))"

section \<open>The script\<close>

subsection \<open>Paths and the artefacts on disk\<close>

definition quoted :: "string \<Rightarrow> string" where
  "quoted s = [CHR 0x27] @ s @ [CHR 0x27]"

definition MODEL_PATH :: string where
  "MODEL_PATH = ''level_model.pkl''"

definition ENCODER_PATH :: string where
  "ENCODER_PATH = ''label_encoder.pkl''"

text \<open>The path of the corpus; its last four characters before the extension are not
  ASCII and are given by their UTF-8 bytes.\<close>

definition MASTER_PATH :: string where
  "MASTER_PATH = ''data/mettre_fin_Lexique_translated_v6w_'' @
     [CHR 0xE4, CHR 0xBF, CHR 0xAE, CHR 0xE6, CHR 0xAD, CHR 0xA3,
      CHR 0xE6, CHR 0xB8, CHR 0x88, CHR 0xE3, CHR 0x81, CHR 0xBF] @ ''.csv''"

text \<open>
  The trained pipeline and the label encoder are opaque: \<^verbatim>\<open>pipeline.predict\<close> maps the
  one-row table of a word to a numeric code, \<^verbatim>\<open>le.inverse_transform\<close> maps a code to a
  label (rendered as text by the f-string); either may raise.
\<close>

type_synonym pipeline = "feature \<Rightarrow> exn + int"

type_synonym label_encoder = "int \<Rightarrow> exn + string"

text \<open>What the process finds on disk: each file is there (with its content) or not.\<close>

record files =
  corpus_file :: "dataframe option"
  model_file :: "pipeline option"
  encoder_file :: "label_encoder option"

definition load_pipeline :: "files \<Rightarrow> exn + pipeline" where
  "load_pipeline fs =
     (case model_file fs of
        None \<Rightarrow> Inl (SystemExit_msg (''Error: Model file not found at '' @ quoted MODEL_PATH @ ''.''))
      | Some pipeline \<Rightarrow> Inr pipeline)"

definition load_label_encoder :: "files \<Rightarrow> exn + label_encoder" where
  "load_label_encoder fs =
     (case encoder_file fs of
        None \<Rightarrow> Inl (SystemExit_msg (''Error: Encoder file not found at '' @ quoted ENCODER_PATH @ ''.''))
      | Some le \<Rightarrow> Inr le)"

subsection \<open>\<^verbatim>\<open>prepare_input\<close>\<close>

text \<open>Line 73: \<^verbatim>\<open>((row.get('freqlemfilms2', 0) + row.get('freqlemlivres', 0)) / 2) or 0.0\<close>.
  Both columns are there, so \<^verbatim>\<open>get\<close> returns the cell, which may be NaN.\<close>

definition known_avg :: "corpus_row \<Rightarrow> fval" where
  "known_avg row = or_float (fhalf (fadd (freqlemfilms2 row) (freqlemlivres row))) (Fin 0)"

text \<open>Line 77: \<^verbatim>\<open>row.get('genre', 'none') or 'none'\<close>.\<close>

definition known_genre :: "corpus_row \<Rightarrow> sval" where
  "known_genre row =
     or_str (case genre row of None \<Rightarrow> Str ''none'' | Some g \<Rightarrow> g) (Str ''none'')"

text \<open>Line 81: the mean of the per-row means, both skipping NaN.\<close>

definition avg_global :: "dataframe \<Rightarrow> fval" where
  "avg_global df = mean_skipna (row_means df)"

text \<open>The body of the loop of \<^verbatim>\<open>prepare_input\<close>, for one word.\<close>

definition prepare_row :: "dataframe \<Rightarrow> string \<Rightarrow> feature" where
  "prepare_row df w =
     (let w_str = strip w;
          match = filter (\<lambda>r. lemme r = Str w_str) df
      in case match of
           row # _ \<Rightarrow>
             \<lparr>in_lemme = lemme row, in_cgram = cgram row,
              in_genre = known_genre row, avg_freq = known_avg row\<rparr>
         | [] \<Rightarrow>
             \<lparr>in_lemme = Str w_str, in_cgram = Str ''unknown'',
              in_genre = Str ''none'', avg_freq = avg_global df\<rparr>)"

definition prepare_input :: "dataframe \<Rightarrow> string list \<Rightarrow> feature list" where
  "prepare_input df words = map (prepare_row df) words"

subsection \<open>\<^verbatim>\<open>predict_levels\<close>\<close>

text \<open>Lines 99 and 100: the series of per-row means with NaN replaced by zero, and its
  33rd and 66th percentiles.\<close>

definition freq_series :: "dataframe \<Rightarrow> fval list" where
  "freq_series df = map fillna0 (row_means df)"

definition thresholds :: "dataframe \<Rightarrow> exn + fval \<times> fval" where
  "thresholds df =
     (case np_percentile (freq_series df) 33 of
        Inl e \<Rightarrow> Inl e
      | Inr q1 \<Rightarrow>
          (case np_percentile (freq_series df) 66 of
             Inl e \<Rightarrow> Inl e
           | Inr q2 \<Rightarrow> Inr (q1, q2)))"

text \<open>Lines 112 to 115: the fallback on the frequency.\<close>

definition fallback_level :: "fval \<Rightarrow> fval \<Rightarrow> fval \<Rightarrow> string" where
  "fallback_level q1 q2 avg_f =
     (if fge avg_f q2 then ''Level 1''
      else if fge avg_f q1 then ''Level 2''
      else ''Level 3'')"

text \<open>Lines 104 to 115: the body of the loop, for one word. The table of the word is
  \<^verbatim>\<open>prepare_input([w])\<close>, of which the pipeline and the fallback read row 0.\<close>

definition resolve_word ::
  "pipeline \<Rightarrow> label_encoder \<Rightarrow> dataframe \<Rightarrow> fval \<Rightarrow> fval \<Rightarrow> string \<Rightarrow> exn + string" where
  "resolve_word pipeline le df q1 q2 w =
     (let df_input = prepare_input df [w]
      in if Str w \<in> set (map lemme df) then
           (case pipeline (hd df_input) of
              Inl e \<Rightarrow> Inl e
            | Inr code \<Rightarrow>
                (case le code of
                   Inl e \<Rightarrow> Inl e
                 | Inr label \<Rightarrow> Inr (''Level '' @ label)))
         else Inr (fallback_level q1 q2 (avg_freq (hd df_input))))"

text \<open>The loop over the words: the results in the order of the words; an exception
  ends the loop and nothing is returned.\<close>

fun resolve_all ::
  "pipeline \<Rightarrow> label_encoder \<Rightarrow> dataframe \<Rightarrow> fval \<Rightarrow> fval \<Rightarrow> string list \<Rightarrow> exn + string list" where
  "resolve_all pipeline le df q1 q2 [] = Inr []"
| "resolve_all pipeline le df q1 q2 (w # ws) =
     (case resolve_word pipeline le df q1 q2 w of
        Inl e \<Rightarrow> Inl e
      | Inr r \<Rightarrow>
          (case resolve_all pipeline le df q1 q2 ws of
             Inl e \<Rightarrow> Inl e
           | Inr rs \<Rightarrow> Inr (r # rs)))"

definition predict_levels :: "files \<Rightarrow> dataframe \<Rightarrow> string list \<Rightarrow> exn + string list" where
  "predict_levels fs df words =
     (case load_pipeline fs of
        Inl e \<Rightarrow> Inl e
      | Inr pipeline \<Rightarrow>
          (case load_label_encoder fs of
             Inl e \<Rightarrow> Inl e
           | Inr le \<Rightarrow>
               (case thresholds df of
                  Inl e \<Rightarrow> Inl e
                | Inr (q1, q2) \<Rightarrow> resolve_all pipeline le df q1 q2 words)))"

subsection \<open>The process\<close>

text \<open>What a run leaves behind: the lines printed on standard output, the lines on
  standard error, and the exit code.\<close>

record outcome =
  stdout :: "string list"
  stderr :: "string list"
  exit_code :: nat

text \<open>The line \<^verbatim>\<open>print_usage\<close> prints.\<close>

definition print_usage :: string where
  "print_usage = ''Usage: python predict_level.py <word1> <word2> ...''"

text \<open>\<^verbatim>\<open>sys.exit\<close> with a message prints it on standard error and exits with code 1,
  \<^verbatim>\<open>sys.exit\<close> with a number exits with that code, and an exception nobody catches
  prints a traceback and exits with code 1.\<close>

fun uncaught :: "exn \<Rightarrow> string list \<times> nat" where
  "uncaught (SystemExit_msg m) = ([m], 1)"
| "uncaught (SystemExit_code n) = ([], n)"
| "uncaught IndexError = ([''Traceback (most recent call last): IndexError''], 1)"
| "uncaught (ArtifactError m) = ([''Traceback (most recent call last): '' @ m], 1)"

text \<open>A run that ends on an exception, after printing some lines.\<close>

definition exit_with :: "string list \<Rightarrow> exn \<Rightarrow> outcome" where
  "exit_with printed e = \<lparr>stdout = printed, stderr = fst (uncaught e), exit_code = snd (uncaught e)\<rparr>"

text \<open>The module from top to bottom: the corpus is read when the module is loaded
  (lines 33 to 36), then the block under \<^verbatim>\<open>__main__\<close> runs on the arguments. Printing
  is that of lines that standard output can encode.\<close>

definition main :: "files \<Rightarrow> string list \<Rightarrow> outcome" where
  "main fs input_words =
     (case corpus_file fs of
        None \<Rightarrow>
          exit_with []
            (SystemExit_msg (''Error: Master data file not found at '' @ quoted MASTER_PATH @ ''.''))
      | Some df_master \<Rightarrow>
          if input_words = [] then exit_with [print_usage] (SystemExit_code 1)
          else
            (case predict_levels fs df_master input_words of
               Inl e \<Rightarrow> exit_with [] e
             | Inr preds \<Rightarrow>
                 \<lparr>stdout = map (\<lambda>(word, level). word @ '' -> '' @ level) (zip input_words preds),
                  stderr = [], exit_code = 0\<rparr>))"

section \<open>The thresholds within the range of doubles\<close>

text \<open>
  The numbers of the program are doubles: a result beyond the largest double is an
  infinity, and the difference of two infinities is NaN. The ordering of the two
  thresholds depends on this, so lines 99 and 100 are given a second time with it: a
  value is NaN, an infinity, or a number, and every operation whose exact result leaves
  the range of doubles gives an infinity (a result that stays in the range is kept
  exact). The bound is the point from which rounding to nearest gives infinity.
\<close>

datatype f64 = Nan64 | NegInf | PosInf | Finite real

definition overflow_bound :: real where
  "overflow_bound = 2 ^ 1024 - 2 ^ 970"

definition to_f64 :: "real \<Rightarrow> f64" where
  "to_f64 x =
     (if overflow_bound \<le> x then PosInf
      else if x \<le> - overflow_bound then NegInf
      else Finite x)"

text \<open>A cell of the table: the number written in the file, read as a double.\<close>

fun of_cell :: "fval \<Rightarrow> f64" where
  "of_cell NaN = Nan64"
| "of_cell (Fin a) = to_f64 a"

fun neg64 :: "f64 \<Rightarrow> f64" where
  "neg64 Nan64 = Nan64"
| "neg64 NegInf = PosInf"
| "neg64 PosInf = NegInf"
| "neg64 (Finite a) = Finite (- a)"

fun add64 :: "f64 \<Rightarrow> f64 \<Rightarrow> f64" where
  "add64 (Finite a) (Finite b) = to_f64 (a + b)"
| "add64 Nan64 y = Nan64"
| "add64 x Nan64 = Nan64"
| "add64 PosInf NegInf = Nan64"
| "add64 NegInf PosInf = Nan64"
| "add64 PosInf y = PosInf"
| "add64 x PosInf = PosInf"
| "add64 NegInf y = NegInf"
| "add64 x NegInf = NegInf"

definition sub64 :: "f64 \<Rightarrow> f64 \<Rightarrow> f64" where
  "sub64 x y = add64 x (neg64 y)"

text \<open>The product with a number \<open>t\<close>, and the quotient by a count \<open>n > 0\<close>.\<close>

fun mul64 :: "f64 \<Rightarrow> real \<Rightarrow> f64" where
  "mul64 (Finite a) t = to_f64 (a * t)"
| "mul64 Nan64 t = Nan64"
| "mul64 PosInf t = (if t = 0 then Nan64 else if 0 < t then PosInf else NegInf)"
| "mul64 NegInf t = (if t = 0 then Nan64 else if 0 < t then NegInf else PosInf)"

fun div64 :: "f64 \<Rightarrow> nat \<Rightarrow> f64" where
  "div64 (Finite a) n = to_f64 (a / real n)"
| "div64 x n = x"

text \<open>\<^verbatim>\<open>a <= b\<close> on doubles: false as soon as one side is NaN.\<close>

fun le64 :: "f64 \<Rightarrow> f64 \<Rightarrow> bool" where
  "le64 Nan64 y = False"
| "le64 x Nan64 = False"
| "le64 NegInf y = True"
| "le64 x PosInf = True"
| "le64 x NegInf = False"
| "le64 PosInf y = False"
| "le64 (Finite a) (Finite b) = (a \<le> b)"

text \<open>The mean with \<^verbatim>\<open>skipna=True\<close>: the sum of the entries that are not NaN, divided
  by their count.\<close>

fun present64 :: "f64 list \<Rightarrow> f64 list" where
  "present64 [] = []"
| "present64 (Nan64 # xs) = present64 xs"
| "present64 (x # xs) = x # present64 xs"

definition mean_skipna64 :: "f64 list \<Rightarrow> f64" where
  "mean_skipna64 xs =
     (let vs = present64 xs
      in if vs = [] then Nan64 else div64 (foldl add64 (Finite 0) vs) (length vs))"

fun fillna64 :: "f64 \<Rightarrow> f64" where
  "fillna64 Nan64 = Finite 0"
| "fillna64 x = x"

definition freq_series64 :: "dataframe \<Rightarrow> f64 list" where
  "freq_series64 df =
     map (\<lambda>r. fillna64 (mean_skipna64 [of_cell (freqlemfilms2 r), of_cell (freqlemlivres r)])) df"

text \<open>Sorting, for data without NaN (numpy sorts with the infinities at the ends).\<close>

fun insert64 :: "f64 \<Rightarrow> f64 list \<Rightarrow> f64 list" where
  "insert64 x [] = [x]"
| "insert64 x (y # ys) = (if le64 x y then x # y # ys else y # insert64 x ys)"

fun sort64 :: "f64 list \<Rightarrow> f64 list" where
  "sort64 [] = []"
| "sort64 (x # xs) = insert64 x (sort64 xs)"

text \<open>
  The interpolation of numpy between the neighbours \<open>a\<close> and \<open>b\<close> at the fraction \<open>t\<close>:
  from \<open>a\<close> upwards below one half, from \<open>b\<close> downwards from one half on.
\<close>

definition lerp64 :: "f64 \<Rightarrow> f64 \<Rightarrow> real \<Rightarrow> f64" where
  "lerp64 a b t =
     (let diff_b_a = sub64 b a
      in if t < 1 / 2 then add64 a (mul64 diff_b_a t)
         else sub64 b (mul64 diff_b_a (1 - t)))"

definition np_percentile64 :: "f64 list \<Rightarrow> real \<Rightarrow> exn + f64" where
  "np_percentile64 a q =
     (if a = [] then Inl IndexError
      else if Nan64 \<in> set a then Inr Nan64
      else
        (let s = sort64 a;
             h = real (length a - 1) * (q / 100);
             lo = nat \<lfloor>h\<rfloor>;
             hi = min (lo + 1) (length a - 1)
         in Inr (lerp64 (s ! lo) (s ! hi) (h - real lo))))"

definition thresholds64 :: "dataframe \<Rightarrow> exn + f64 \<times> f64" where
  "thresholds64 df =
     (case np_percentile64 (freq_series64 df) 33 of
        Inl e \<Rightarrow> Inl e
      | Inr q1 \<Rightarrow>
          (case np_percentile64 (freq_series64 df) 66 of
             Inl e \<Rightarrow> Inl e
           | Inr q2 \<Rightarrow> Inr (q1, q2)))"

text \<open>A number that is not negative (and so neither NaN nor an infinity).\<close>

fun nonneg64 :: "f64 \<Rightarrow> bool" where
  "nonneg64 (Finite a) = (0 \<le> a)"
| "nonneg64 _ = False"

text \<open>A value that a double can hold: a number only within the range.\<close>

fun in_range64 :: "f64 \<Rightarrow> bool" where
  "in_range64 (Finite a) = (- overflow_bound < a \<and> a < overflow_bound)"
| "in_range64 _ = True"

text \<open>A record whose measures, and their sum, are within the range of doubles.\<close>

definition within_range :: "corpus_row \<Rightarrow> bool" where
  "within_range r =
     (case (freqlemfilms2 r, freqlemlivres r) of
        (Fin a, Fin b) \<Rightarrow>
          \<bar>a\<bar> < overflow_bound \<and> \<bar>b\<bar> < overflow_bound \<and> \<bar>a + b\<bar> < overflow_bound
      | (Fin a, NaN) \<Rightarrow> \<bar>a\<bar> < overflow_bound
      | (NaN, Fin b) \<Rightarrow> \<bar>b\<bar> < overflow_bound
      | (NaN, NaN) \<Rightarrow> True)"

section \<open>The policies as the specification words them\<close>

text \<open>The zero-fill policy: a missing measure counts as zero, and the mean is taken
  over both measures.\<close>

fun zero_fill :: "fval \<Rightarrow> real" where
  "zero_fill NaN = 0"
| "zero_fill (Fin a) = a"

definition zero_fill_mean :: "corpus_row \<Rightarrow> fval" where
  "zero_fill_mean r = Fin ((zero_fill (freqlemfilms2 r) + zero_fill (freqlemlivres r)) / 2)"

text \<open>The skip-missing policy: the mean of a record is taken over the measures it
  has, and a record with no measure has no mean.\<close>

definition record_mean_skip :: "corpus_row \<Rightarrow> real option" where
  "record_mean_skip r =
     (case (freqlemfilms2 r, freqlemlivres r) of
        (Fin a, Fin b) \<Rightarrow> Some ((a + b) / 2)
      | (Fin a, NaN) \<Rightarrow> Some a
      | (NaN, Fin b) \<Rightarrow> Some b
      | (NaN, NaN) \<Rightarrow> None)"

text \<open>The corpus-wide mean of the per-record means, over the records that have one.\<close>

definition skip_aware_global_mean :: "dataframe \<Rightarrow> fval" where
  "skip_aware_global_mean df =
     (let ms = List.map_filter record_mean_skip df
      in if ms = [] then NaN else Fin (sum_list ms / real (length ms)))"

text \<open>The per-record value the thresholds are taken over: the skip-missing mean, and
  zero for a record with no measure.\<close>

definition skip_mean_or_zero :: "corpus_row \<Rightarrow> fval" where
  "skip_mean_or_zero r = (case record_mean_skip r of None \<Rightarrow> Fin 0 | Some m \<Rightarrow> Fin m)"

section \<open>Sample corpora and artefacts\<close>

text \<open>The record of the specification's scenario, and records with a missing measure
  or a missing gender, as a corpus file with empty cells gives them.\<close>

definition chat_row :: corpus_row where
  "chat_row = \<lparr>lemme = Str ''chat'', cgram = Str ''NOM'', genre = Some (Str ''m''),
     freqlemfilms2 = Fin 120, freqlemlivres = Fin 80\<rparr>"

definition vin_row :: corpus_row where
  "vin_row = \<lparr>lemme = Str ''vin'', cgram = Str ''NOM'', genre = Some (Str ''m''),
     freqlemfilms2 = NaN, freqlemlivres = Fin 80\<rparr>"

definition aller_row :: corpus_row where
  "aller_row = \<lparr>lemme = Str ''aller'', cgram = Str ''VER'', genre = Some SNaN,
     freqlemfilms2 = Fin 10, freqlemlivres = Fin 10\<rparr>"

text \<open>A pipeline that answers code 0 and an encoder that names every code \<open>A1\<close>.\<close>

definition sample_pipeline :: pipeline where
  "sample_pipeline x = Inr 0"

definition sample_encoder :: label_encoder where
  "sample_encoder code = Inr ''A1''"

definition sample_files :: "dataframe \<Rightarrow> files" where
  "sample_files df =
     \<lparr>corpus_file = Some df, model_file = Some sample_pipeline,
      encoder_file = Some sample_encoder\<rparr>"

text \<open>The same files with the pipeline missing.\<close>

definition files_without_model :: "dataframe \<Rightarrow> files" where
  "files_without_model df =
     \<lparr>corpus_file = Some df, model_file = None, encoder_file = Some sample_encoder\<rparr>"

text \<open>Two small corpora: one with every measure present, one with a gap.\<close>

definition sample_corpus :: dataframe where
  "sample_corpus = [chat_row, aller_row]"

definition gappy_corpus :: dataframe where
  "gappy_corpus = [vin_row, aller_row]"

text \<open>A record whose two measures are large doubles, and the files of a run without
  the corpus file.\<close>

definition big_row :: corpus_row where
  "big_row = \<lparr>lemme = Str ''or'', cgram = Str ''NOM'', genre = Some (Str ''m''),
     freqlemfilms2 = Fin (15 * 10 ^ 307), freqlemlivres = Fin (15 * 10 ^ 307)\<rparr>"


text \<open>Two records with one measure each, of opposite signs and large.\<close>

definition low_row :: corpus_row where
  "low_row = \<lparr>lemme = Str ''bas'', cgram = Str ''ADJ'', genre = Some (Str ''m''),
     freqlemfilms2 = Fin (- (15 * 10 ^ 307)), freqlemlivres = NaN\<rparr>"

definition high_row :: corpus_row where
  "high_row = \<lparr>lemme = Str ''haut'', cgram = Str ''ADJ'', genre = Some (Str ''m''),
     freqlemfilms2 = Fin (15 * 10 ^ 307), freqlemlivres = NaN\<rparr>"

section \<open>Evaluating the definitions\<close>

lemmas sample_rows = sample_corpus_def gappy_corpus_def chat_row_def vin_row_def aller_row_def

lemmas series_defs = thresholds_def np_percentile_def interpolate_def freq_series_def
  row_means_def mean_skipna_def

lemmas prepare_defs = prepare_row_def strip_def rstrip_def avg_global_def row_means_def
  mean_skipna_def known_avg_def known_genre_def

section \<open>Properties of the percentile\<close>

text \<open>On sorted data the interpolated value lies between the two neighbours of the
  virtual index, and grows with the index.\<close>

lemma interpolate_upper:
  assumes "sorted s" "0 \<le> h" "h \<le> real (length s - 1)" "s \<noteq> []"
  shows "interpolate s h \<le> s ! min (nat \<lfloor>h\<rfloor> + 1) (length s - 1)"
proof -
  define lo where "lo = nat \<lfloor>h\<rfloor>"
  define hi where "hi = min (lo + 1) (length s - 1)"
  have lo_le: "real lo \<le> h" and h_lt: "h < real lo + 1"
    using assms(2) unfolding lo_def by linarith+
  have "lo \<le> length s - 1" using lo_le assms(3) by linarith
  moreover have "0 < length s" using assms(4) by simp
  ultimately have "lo \<le> hi" "hi < length s"
    unfolding hi_def by (auto simp: min_def)
  then have d: "s ! lo \<le> s ! hi"
    using assms(1) by (simp add: sorted_nth_mono)
  have "(s ! hi - s ! lo) * (h - real lo) \<le> (s ! hi - s ! lo) * 1"
    using d h_lt by (intro mult_left_mono) auto
  then show ?thesis
    unfolding interpolate_def Let_def lo_def[symmetric] hi_def[symmetric] by simp
qed

lemma interpolate_lower:
  assumes "sorted s" "0 \<le> h" "h \<le> real (length s - 1)" "s \<noteq> []"
  shows "s ! nat \<lfloor>h\<rfloor> \<le> interpolate s h"
proof -
  define lo where "lo = nat \<lfloor>h\<rfloor>"
  define hi where "hi = min (lo + 1) (length s - 1)"
  have lo_le: "real lo \<le> h"
    using assms(2) unfolding lo_def by linarith
  have "lo \<le> length s - 1" using lo_le assms(3) by linarith
  moreover have "0 < length s" using assms(4) by simp
  ultimately have "lo \<le> hi" "hi < length s"
    unfolding hi_def by (auto simp: min_def)
  then have d: "s ! lo \<le> s ! hi"
    using assms(1) by (simp add: sorted_nth_mono)
  have "0 \<le> (s ! hi - s ! lo) * (h - real lo)"
    using d lo_le by simp
  then show ?thesis
    unfolding interpolate_def Let_def lo_def[symmetric] hi_def[symmetric] by simp
qed

lemma interpolate_mono:
  assumes srt: "sorted s" and h1: "0 \<le> h1" and le: "h1 \<le> h2"
    and h2: "h2 \<le> real (length s - 1)" and ne: "s \<noteq> []"
  shows "interpolate s h1 \<le> interpolate s h2"
proof -
  define l1 where "l1 = nat \<lfloor>h1\<rfloor>"
  define l2 where "l2 = nat \<lfloor>h2\<rfloor>"
  have l12: "l1 \<le> l2"
    unfolding l1_def l2_def using le by (simp add: floor_mono nat_mono)
  have l2_le: "real l2 \<le> h2" using h1 le unfolding l2_def by linarith
  then have l2n: "l2 \<le> length s - 1" using h2 by linarith
  show ?thesis
  proof (cases "l1 = l2")
    case True
    define hi where "hi = min (l1 + 1) (length s - 1)"
    have "0 < length s" using ne by simp
    then have "l1 \<le> hi" "hi < length s"
      using l2n True unfolding hi_def by (auto simp: min_def)
    then have d: "s ! l1 \<le> s ! hi"
      using srt by (simp add: sorted_nth_mono)
    have "(s ! hi - s ! l1) * (h1 - real l1) \<le> (s ! hi - s ! l1) * (h2 - real l1)"
      using d le by (intro mult_left_mono) auto
    then show ?thesis
      unfolding interpolate_def Let_def l1_def[symmetric] l2_def[symmetric] True[symmetric]
        hi_def[symmetric] by simp
  next
    case False
    then have lt: "l1 + 1 \<le> l2" using l12 by simp
    have "interpolate s h1 \<le> s ! min (l1 + 1) (length s - 1)"
      unfolding l1_def using interpolate_upper[OF srt h1 _ ne] le h2 by simp
    also have "min (l1 + 1) (length s - 1) = l1 + 1"
      using lt l2n by simp
    also have "s ! (l1 + 1) \<le> s ! l2"
      using srt lt l2n ne by (intro sorted_nth_mono) (auto simp: Suc_le_eq)
    also have "s ! l2 \<le> interpolate s h2"
      unfolding l2_def using interpolate_lower[OF srt _ h2 ne] h1 le by simp
    finally show ?thesis .
  qed
qed

lemma freq_series_no_NaN: "NaN \<notin> set (freq_series df)"
proof -
  have "NaN \<noteq> fillna0 v" for v by (cases v) simp_all
  then show ?thesis by (auto simp: freq_series_def)
qed

lemma length_freq_series: "length (freq_series df) = length df"
  by (simp add: freq_series_def row_means_def)

lemma length_present: "NaN \<notin> set xs \<Longrightarrow> length (present xs) = length xs"
  by (induction xs rule: present.induct) auto

lemma thresholds_ordered:
  assumes "df \<noteq> []"
  shows "\<exists>a b. thresholds df = Inr (Fin a, Fin b) \<and> a \<le> b"
proof -
  define s where "s = sort (present (freq_series df))"
  have len: "length s = length df"
    unfolding s_def by (simp add: length_present freq_series_no_NaN length_freq_series)
  have ne: "s \<noteq> []" using assms len by auto
  have srt: "sorted s" unfolding s_def by simp
  have fne: "freq_series df \<noteq> []" using assms by (simp add: freq_series_def row_means_def)
  have "interpolate s (real (length df - 1) * (33 / 100))
      \<le> interpolate s (real (length df - 1) * (66 / 100))"
    by (rule interpolate_mono[OF srt _ _ _ ne]) (simp_all add: len mult_left_le)
  then show ?thesis
    unfolding thresholds_def np_percentile_def
    using fne freq_series_no_NaN[of df]
    by (simp add: length_freq_series s_def)
qed

lemma thresholds_empty: "thresholds [] = Inl IndexError"
  by (simp add: thresholds_def np_percentile_def freq_series_def row_means_def)

section \<open>The loop of \<^verbatim>\<open>predict_levels\<close>\<close>

lemma resolve_all_Inr:
  "resolve_all p le df q1 q2 ws = Inr rs \<Longrightarrow>
   list_all2 (\<lambda>w r. resolve_word p le df q1 q2 w = Inr r) ws rs"
  by (induction ws arbitrary: rs) (auto simp: list_all2_Cons1 split: sum.splits)

lemma resolve_all_nth:
  assumes "resolve_all p le df q1 q2 ws = Inr rs"
  shows "length rs = length ws"
    and "i < length ws \<Longrightarrow> resolve_word p le df q1 q2 (ws ! i) = Inr (rs ! i)"
  using resolve_all_Inr[OF assms] by (auto simp: list_all2_conv_all_nth)


lemma hd_prepare_input: "hd (prepare_input df [w]) = prepare_row df w"
  by (simp add: prepare_input_def)

lemma resolve_word_known:
  "Str w \<in> set (map lemme df) \<Longrightarrow>
   resolve_word p le df q1 q2 w =
     (case p (prepare_row df w) of
        Inl e \<Rightarrow> Inl e
      | Inr code \<Rightarrow> (case le code of Inl e \<Rightarrow> Inl e | Inr label \<Rightarrow> Inr (''Level '' @ label)))"
  unfolding resolve_word_def Let_def hd_prepare_input by simp

lemma resolve_word_unknown:
  "Str w \<notin> set (map lemme df) \<Longrightarrow>
   resolve_word p le df q1 q2 w = Inr (fallback_level q1 q2 (avg_freq (prepare_row df w)))"
  unfolding resolve_word_def Let_def hd_prepare_input by simp

lemma predict_levels_Inr:
  assumes "predict_levels fs df ws = Inr rs"
  obtains p le q1 q2 where "model_file fs = Some p" "encoder_file fs = Some le"
    "thresholds df = Inr (q1, q2)" "resolve_all p le df q1 q2 ws = Inr rs"
  using assms unfolding predict_levels_def load_pipeline_def load_label_encoder_def
  by (auto split: option.splits sum.splits)

lemma predict_levels_loaded:
  assumes "model_file fs = Some p" "encoder_file fs = Some le" "thresholds df = Inr (q1, q2)"
  shows "predict_levels fs df ws = resolve_all p le df q1 q2 ws"
  using assms unfolding predict_levels_def load_pipeline_def load_label_encoder_def by simp

lemma predict_levels_length:
  "predict_levels fs df ws = Inr rs \<Longrightarrow> length rs = length ws"
  by (erule predict_levels_Inr) (rule resolve_all_nth(1))

lemma fallback_level_cases:
  assumes "a \<le> b"
  shows "(fge v (Fin b) \<longrightarrow> fallback_level (Fin a) (Fin b) v = ''Level 1'')
    \<and> (fge v (Fin a) \<and> flt v (Fin b) \<longrightarrow> fallback_level (Fin a) (Fin b) v = ''Level 2'')
    \<and> (flt v (Fin a) \<longrightarrow> fallback_level (Fin a) (Fin b) v = ''Level 3'')
    \<and> fallback_level (Fin a) (Fin b) v \<in> {''Level 1'', ''Level 2'', ''Level 3''}
    \<and> (v = Fin b \<longrightarrow> fallback_level (Fin a) (Fin b) v = ''Level 1'')
    \<and> (v = Fin a \<and> a < b \<longrightarrow> fallback_level (Fin a) (Fin b) v = ''Level 2'')"
  using assms by (cases v) (auto simp: fallback_level_def)





lemma predict_levels_load_failure:
  assumes "model_file fs = None \<or> encoder_file fs = None"
  shows "\<exists>m. \<forall>df ws. predict_levels fs df ws = Inl (SystemExit_msg m)"
proof (cases "model_file fs")
  case None
  then show ?thesis by (simp add: predict_levels_def load_pipeline_def)
next
  case (Some p)
  then have "encoder_file fs = None" using assms by simp
  then show ?thesis using Some
    by (simp add: predict_levels_def load_pipeline_def load_label_encoder_def)
qed

section \<open>The feature row\<close>

lemma row_mean_skip:
  "mean_skipna [freqlemfilms2 r, freqlemlivres r] =
     (case record_mean_skip r of None \<Rightarrow> NaN | Some m \<Rightarrow> Fin m)"
  by (cases "freqlemfilms2 r"; cases "freqlemlivres r")
     (simp_all add: mean_skipna_def record_mean_skip_def)

lemma present_row_means: "present (row_means df) = List.map_filter record_mean_skip df"
proof (induction df)
  case Nil
  show ?case by (simp add: row_means_def)
next
  case (Cons r df)
  then show ?case
    by (cases "record_mean_skip r") (simp_all add: row_means_def row_mean_skip)
qed

lemma avg_global_skip: "avg_global df = skip_aware_global_mean df"
  by (simp add: avg_global_def mean_skipna_def skip_aware_global_mean_def present_row_means)

lemma filter_lemme_empty:
  "Str s \<notin> set (map lemme df) \<Longrightarrow> filter (\<lambda>r. lemme r = Str s) df = []"
  by (induction df) auto

lemma freq_series_skip: "freq_series df = map skip_mean_or_zero df"
proof -
  have "fillna0 (mean_skipna [freqlemfilms2 r, freqlemlivres r]) = skip_mean_or_zero r" for r
    by (cases "record_mean_skip r") (simp_all add: row_mean_skip skip_mean_or_zero_def)
  then show ?thesis by (simp add: freq_series_def row_means_def)
qed

lemma known_avg_both_present:
  "freqlemfilms2 r = Fin a \<Longrightarrow> freqlemlivres r = Fin b \<Longrightarrow>
   known_avg r = Fin ((a + b) / 2) \<and> known_avg r = zero_fill_mean r"
  by (simp add: known_avg_def zero_fill_mean_def)

lemma known_avg_missing:
  "freqlemfilms2 r = NaN \<or> freqlemlivres r = NaN \<Longrightarrow> known_avg r = NaN"
  by (cases "freqlemfilms2 r"; cases "freqlemlivres r") (auto simp: known_avg_def)

lemma known_feature:
  assumes "filter (\<lambda>r. lemme r = Str (strip w)) df = row # rest"
  shows "prepare_row df w =
     \<lparr>in_lemme = lemme row, in_cgram = cgram row, in_genre = known_genre row,
      avg_freq = known_avg row\<rparr>"
  by (simp add: prepare_row_def Let_def assms)

lemma known_genre_cases:
  "known_genre r =
     (case genre r of
        None \<Rightarrow> Str ''none''
      | Some SNaN \<Rightarrow> SNaN
      | Some (Str g) \<Rightarrow> if g = [] then Str ''none'' else Str g)"
  by (simp add: known_genre_def split: option.splits sval.splits)

lemma whitespace_word_uses_matched_record:
  assumes "Str w \<notin> set (map lemme df)"
    and "filter (\<lambda>r. lemme r = Str (strip w)) df = row # rest"
  shows "resolve_word p le df q1 q2 w = Inr (fallback_level q1 q2 (known_avg row))"
  by (simp add: resolve_word_unknown[OF assms(1)] known_feature[OF assms(2)])

section \<open>Runs on the sample corpora\<close>

lemma sample_thresholds: "thresholds [chat_row] = Inr (Fin 100, Fin 100)"
  by (simp add: thresholds_def np_percentile_def interpolate_def freq_series_def row_means_def mean_skipna_def chat_row_def)

lemma sample_prep: "avg_freq (prepare_row [chat_row] ''xyzzy123'') = Fin 100"
  by (simp add: prepare_row_def strip_def rstrip_def chat_row_def avg_global_def row_means_def mean_skipna_def)

lemma sample_run:
  "predict_levels (sample_files [chat_row]) [chat_row] [''xyzzy123''] = Inr [''Level 1'']"
proof -
  have unk: "Str ''xyzzy123'' \<notin> set (map lemme [chat_row])"
    by (simp add: chat_row_def)
  have "predict_levels (sample_files [chat_row]) [chat_row] [''xyzzy123'']
      = resolve_all sample_pipeline sample_encoder [chat_row] (Fin 100) (Fin 100) [''xyzzy123'']"
    by (rule predict_levels_loaded[OF _ _ sample_thresholds]) (simp_all add: sample_files_def)
  also have "\<dots> = Inr [''Level 1'']"
    by (simp add: resolve_word_unknown[OF unk] sample_prep fallback_level_def)
  finally show ?thesis .
qed

lemma sample_corpus_thresholds: "thresholds sample_corpus = Inr (Fin (397 / 10), Fin (347 / 5))"
  by (simp add: series_defs sample_rows)

lemma gappy_corpus_thresholds: "thresholds gappy_corpus = Inr (Fin (331 / 10), Fin (281 / 5))"
  by (simp add: series_defs sample_rows)

lemma sample_unknown_feature:
  "prepare_row sample_corpus ''xyzzy123'' =
     \<lparr>in_lemme = Str ''xyzzy123'', in_cgram = Str ''unknown'', in_genre = Str ''none'',
      avg_freq = Fin 55\<rparr>"
  by (simp add: prepare_defs sample_rows)

lemma sample_known_feature:
  "prepare_row sample_corpus ''chat'' =
     \<lparr>in_lemme = Str ''chat'', in_cgram = Str ''NOM'', in_genre = Str ''m'',
      avg_freq = Fin 100\<rparr>"
  by (simp add: prepare_defs sample_rows)

lemma sample_corpus_run:
  "predict_levels (sample_files sample_corpus) sample_corpus [''chat'', ''xyzzy123'']
     = Inr [''Level A1'', ''Level 2'']"
proof -
  have kn: "Str ''chat'' \<in> set (map lemme sample_corpus)"
    and unk: "Str ''xyzzy123'' \<notin> set (map lemme sample_corpus)"
    by (simp_all add: sample_rows)
  have "predict_levels (sample_files sample_corpus) sample_corpus [''chat'', ''xyzzy123'']
      = resolve_all sample_pipeline sample_encoder sample_corpus (Fin (397 / 10)) (Fin (347 / 5))
          [''chat'', ''xyzzy123'']"
    by (rule predict_levels_loaded[OF _ _ sample_corpus_thresholds])
       (simp_all add: sample_files_def)
  also have "\<dots> = Inr [''Level A1'', ''Level 2'']"
    by (simp add: resolve_word_unknown[OF unk] resolve_word_known[OF kn] sample_unknown_feature
        fallback_level_def sample_pipeline_def sample_encoder_def)
  finally show ?thesis .
qed

section \<open>The fallback buckets\<close>

text \<open>
  C1 (as amended): for every input word that is not in the lemma column as it was
  typed, the level comes from comparing the average frequency of its feature row with
  the thresholds of the batch: at least \<open>q2\<close> gives \<open>Level 1\<close>, at least \<open>q1\<close> and below
  \<open>q2\<close> gives \<open>Level 2\<close>, below \<open>q1\<close> gives \<open>Level 3\<close>; the label is always one of these
  three; an average equal to \<open>q2\<close> gives \<open>Level 1\<close>, and an average equal to \<open>q1\<close> gives
  \<open>Level 2\<close> when \<open>q1 < q2\<close>.
\<close>

theorem fallback_buckets:
  assumes "predict_levels fs df ws = Inr rs" and "i < length ws"
    and "Str (ws ! i) \<notin> set (map lemme df)"
  shows "\<exists>q1 q2. thresholds df = Inr (Fin q1, Fin q2) \<and>
     (let avg_f = avg_freq (prepare_row df (ws ! i)) in
        (fge avg_f (Fin q2) \<longrightarrow> rs ! i = ''Level 1'')
      \<and> (fge avg_f (Fin q1) \<and> flt avg_f (Fin q2) \<longrightarrow> rs ! i = ''Level 2'')
      \<and> (flt avg_f (Fin q1) \<longrightarrow> rs ! i = ''Level 3'')
      \<and> rs ! i \<in> {''Level 1'', ''Level 2'', ''Level 3''}
      \<and> (avg_f = Fin q2 \<longrightarrow> rs ! i = ''Level 1'')
      \<and> (avg_f = Fin q1 \<and> q1 < q2 \<longrightarrow> rs ! i = ''Level 2''))"
proof -
  from assms(1) obtain p le q1 q2 where th: "thresholds df = Inr (q1, q2)"
    and ra: "resolve_all p le df q1 q2 ws = Inr rs"
    by (rule predict_levels_Inr)
  have "df \<noteq> []" using th by (auto simp: thresholds_empty)
  then obtain a b where ab: "q1 = Fin a" "q2 = Fin b" "a \<le> b"
    using thresholds_ordered[of df] th by auto
  have "resolve_word p le df q1 q2 (ws ! i) = Inr (rs ! i)"
    using resolve_all_nth(2)[OF ra assms(2)] .
  then have "rs ! i = fallback_level (Fin a) (Fin b) (avg_freq (prepare_row df (ws ! i)))"
    using assms(3) ab by (simp add: resolve_word_unknown)
  then show ?thesis
    using fallback_level_cases[OF ab(3), of "avg_freq (prepare_row df (ws ! i))"] th ab
    by (simp add: Let_def)
qed

text \<open>On the sample corpus the unknown word \<open>xyzzy123\<close> has the average 55, between
  the thresholds 39.7 and 69.4, and gets \<open>Level 2\<close>.\<close>

theorem fallback_buckets_witness:
  "predict_levels (sample_files sample_corpus) sample_corpus [''chat'', ''xyzzy123'']
     = Inr [''Level A1'', ''Level 2'']
   \<and> (1::nat) < length [''chat'', ''xyzzy123'']
   \<and> Str ([''chat'', ''xyzzy123''] ! 1) \<notin> set (map lemme sample_corpus)
   \<and> thresholds sample_corpus = Inr (Fin (397 / 10), Fin (347 / 5))
   \<and> fge (avg_freq (prepare_row sample_corpus ''xyzzy123'')) (Fin (397 / 10))
   \<and> flt (avg_freq (prepare_row sample_corpus ''xyzzy123'')) (Fin (347 / 5))
   \<and> [''Level A1'', ''Level 2''] ! 1 = ''Level 2''"
proof -
  have unk: "Str ([''chat'', ''xyzzy123''] ! 1) \<notin> set (map lemme sample_corpus)"
    by (simp add: sample_rows)
  show ?thesis
    using fallback_buckets[OF sample_corpus_run _ unk] sample_corpus_run unk
    by (simp add: sample_corpus_thresholds sample_unknown_feature)
qed

text \<open>
  As first stated the claim also asks for \<open>Level 2\<close> whenever the average equals \<open>q1\<close>.
  On a corpus of one record both thresholds are that record's mean, which is also the
  average of every unknown word: the average equals \<open>q1\<close> and the level is \<open>Level 1\<close>.
\<close>

theorem boundary_q1_counterexample:
  "Str ''xyzzy123'' \<notin> set (map lemme [chat_row])
   \<and> thresholds [chat_row] = Inr (Fin 100, Fin 100)
   \<and> avg_freq (prepare_row [chat_row] ''xyzzy123'') = Fin 100
   \<and> predict_levels (sample_files [chat_row]) [chat_row] [''xyzzy123''] = Inr [''Level 1'']
   \<and> ''Level 1'' \<noteq> ''Level 2''"
  using sample_thresholds sample_prep sample_run by (simp add: chat_row_def)

section \<open>Routing\<close>

text \<open>
  C2: the path a word takes is decided by whether the word as typed (not trimmed) is in
  the lemma column. A word that is there gets the label the encoder gives for the code
  the pipeline predicts, whatever the thresholds are; a word that is not there gets the
  level of the frequency fallback, whatever the pipeline and the encoder are.
\<close>

theorem routing_by_raw_membership:
  assumes "predict_levels fs df ws = Inr rs" and "i < length ws"
  shows "\<exists>p le q1 q2. model_file fs = Some p \<and> encoder_file fs = Some le
     \<and> thresholds df = Inr (q1, q2)
     \<and> (if Str (ws ! i) \<in> set (map lemme df)
        then (\<exists>code label. p (prepare_row df (ws ! i)) = Inr code \<and> le code = Inr label
                \<and> rs ! i = ''Level '' @ label)
           \<and> (\<forall>q1' q2'. resolve_word p le df q1' q2' (ws ! i) = Inr (rs ! i))
        else rs ! i = fallback_level q1 q2 (avg_freq (prepare_row df (ws ! i)))
           \<and> (\<forall>p' le'. resolve_word p' le' df q1 q2 (ws ! i) = Inr (rs ! i)))"
proof -
  from assms(1) obtain p le q1 q2 where ld: "model_file fs = Some p" "encoder_file fs = Some le"
    and th: "thresholds df = Inr (q1, q2)"
    and ra: "resolve_all p le df q1 q2 ws = Inr rs"
    by (rule predict_levels_Inr)
  have step: "resolve_word p le df q1 q2 (ws ! i) = Inr (rs ! i)"
    using resolve_all_nth(2)[OF ra assms(2)] .
  show ?thesis
  proof (cases "Str (ws ! i) \<in> set (map lemme df)")
    case True
    have indep: "resolve_word p le df q1' q2' (ws ! i) = Inr (rs ! i)" for q1' q2'
      using step by (simp add: resolve_word_known[OF True])
    have "\<exists>code label. p (prepare_row df (ws ! i)) = Inr code \<and> le code = Inr label
        \<and> rs ! i = ''Level '' @ label"
      using step unfolding resolve_word_known[OF True] by (auto split: sum.splits)
    then show ?thesis using ld th True indep by auto
  next
    case False
    have "resolve_word p' le' df q1 q2 (ws ! i) = Inr (rs ! i)" for p' le'
      using step by (simp add: resolve_word_unknown[OF False])
    moreover have "rs ! i = fallback_level q1 q2 (avg_freq (prepare_row df (ws ! i)))"
      using step by (simp add: resolve_word_unknown[OF False])
    ultimately show ?thesis using ld th False by auto
  qed
qed

theorem routing_by_raw_membership_witness:
  "predict_levels (sample_files sample_corpus) sample_corpus [''chat'', ''xyzzy123'']
     = Inr [''Level A1'', ''Level 2'']
   \<and> (0::nat) < length [''chat'', ''xyzzy123'']
   \<and> Str ([''chat'', ''xyzzy123''] ! 0) \<in> set (map lemme sample_corpus)
   \<and> (\<exists>p le. model_file (sample_files sample_corpus) = Some p
        \<and> encoder_file (sample_files sample_corpus) = Some le
        \<and> (\<exists>code label. p (prepare_row sample_corpus ''chat'') = Inr code
              \<and> le code = Inr label \<and> [''Level A1'', ''Level 2''] ! 0 = ''Level '' @ label))"
proof -
  have kn: "Str ([''chat'', ''xyzzy123''] ! 0) \<in> set (map lemme sample_corpus)"
    by (simp add: sample_rows)
  show ?thesis
    using routing_by_raw_membership[OF sample_corpus_run, of 0] sample_corpus_run kn
    by (simp add: sample_files_def)
qed

section \<open>The input of the thresholds\<close>

text \<open>
  C3 (as amended): the series the thresholds are taken from holds, for every record,
  the mean of the measures the record has: both measures give their mean, a single
  measure \<open>f\<close> gives \<open>f\<close> itself, and a record with no measure gives zero; \<open>q1\<close> and \<open>q2\<close>
  are the 33rd and 66th percentile of that series.
\<close>

theorem threshold_input_skips_missing:
  "freq_series df = map skip_mean_or_zero df
   \<and> thresholds df =
       (case np_percentile (map skip_mean_or_zero df) 33 of
          Inl e \<Rightarrow> Inl e
        | Inr q1 \<Rightarrow>
            (case np_percentile (map skip_mean_or_zero df) 66 of
               Inl e \<Rightarrow> Inl e
             | Inr q2 \<Rightarrow> Inr (q1, q2)))
   \<and> (\<forall>r f. (freqlemfilms2 r = Fin f \<and> freqlemlivres r = NaN
             \<or> freqlemfilms2 r = NaN \<and> freqlemlivres r = Fin f)
          \<longrightarrow> skip_mean_or_zero r = Fin f)
   \<and> (\<forall>r. freqlemfilms2 r = NaN \<and> freqlemlivres r = NaN \<longrightarrow> skip_mean_or_zero r = Fin 0)
   \<and> (\<forall>r a b. freqlemfilms2 r = Fin a \<and> freqlemlivres r = Fin b
          \<longrightarrow> skip_mean_or_zero r = Fin ((a + b) / 2))"
  unfolding thresholds_def freq_series_skip
  by (auto simp: skip_mean_or_zero_def record_mean_skip_def)

theorem threshold_input_skips_missing_witness:
  "freqlemfilms2 vin_row = NaN \<and> freqlemlivres vin_row = Fin 80
   \<and> skip_mean_or_zero vin_row = Fin 80
   \<and> freq_series gappy_corpus = map skip_mean_or_zero gappy_corpus
   \<and> freq_series gappy_corpus = [Fin 80, Fin 10]"
proof -
  have cells: "freqlemfilms2 vin_row = NaN \<and> freqlemlivres vin_row = Fin 80"
    by (simp add: vin_row_def)
  have "freq_series gappy_corpus = [Fin 80, Fin 10]"
    by (simp add: series_defs sample_rows)
  then show ?thesis
    using threshold_input_skips_missing[of gappy_corpus] cells by auto
qed

text \<open>
  As first stated the claim has a record with one measure \<open>f\<close> contribute \<open>f / 2\<close>. The
  record \<open>vin\<close> has only the measure 80: it contributes 80, not 40, and both
  thresholds of the corpus made of it are 80.
\<close>

theorem threshold_input_zero_fill_counterexample:
  "freqlemfilms2 vin_row = NaN \<and> freqlemlivres vin_row = Fin 80
   \<and> freq_series [vin_row] = [Fin 80]
   \<and> map zero_fill_mean [vin_row] = [Fin 40]
   \<and> freq_series [vin_row] \<noteq> map zero_fill_mean [vin_row]
   \<and> thresholds [vin_row] = Inr (Fin 80, Fin 80)
   \<and> np_percentile (map zero_fill_mean [vin_row]) 33 = Inr (Fin 40)
   \<and> np_percentile (map zero_fill_mean [vin_row]) 66 = Inr (Fin 40)"
  by (simp add: vin_row_def freq_series_def row_means_def mean_skipna_def zero_fill_mean_def
      thresholds_def np_percentile_def interpolate_def)

section \<open>Known words\<close>

text \<open>
  C4: for a word whose trimmed form is in the corpus, the claim gives the average
  frequency as the mean of the two measures with a missing one counted as zero. With
  both measures present the program computes that mean (\<open>known_avg_both_present\<close>),
  but a missing measure is a NaN cell, the sum with NaN is NaN, and NaN is truthy, so
  the average is NaN: for \<open>vin\<close>, with the measures NaN and 80, the program gives NaN
  where the claim gives 40.
\<close>

theorem known_word_missing_measure:
  "prepare_row [vin_row] ''vin'' =
     \<lparr>in_lemme = Str ''vin'', in_cgram = Str ''NOM'', in_genre = Str ''m'', avg_freq = NaN\<rparr>
   \<and> freqlemfilms2 vin_row = NaN \<and> freqlemlivres vin_row = Fin 80
   \<and> zero_fill_mean vin_row = Fin 40"
  by (simp add: prepare_defs vin_row_def zero_fill_mean_def)

text \<open>
  C5: a word that is not in the lemma column as typed, while its trimmed form is, takes
  the fallback with the average of the matched record
  (\<open>whitespace_word_uses_matched_record\<close>). That average is the zero-filled mean only
  when both measures are present: for \<open>vin\<close> followed by a space the average is NaN and
  the level is \<open>Level 3\<close>, where the zero-filled mean 40 lies between the thresholds and
  would give \<open>Level 2\<close>.
\<close>

theorem whitespace_word_missing_measure:
  "Str ''vin '' \<notin> set (map lemme gappy_corpus)
   \<and> Str (strip ''vin '') = lemme vin_row
   \<and> avg_freq (prepare_row gappy_corpus ''vin '') = NaN
   \<and> thresholds gappy_corpus = Inr (Fin (331 / 10), Fin (281 / 5))
   \<and> predict_levels (sample_files gappy_corpus) gappy_corpus [''vin ''] = Inr [''Level 3'']
   \<and> zero_fill_mean vin_row = Fin 40
   \<and> fallback_level (Fin (331 / 10)) (Fin (281 / 5)) (zero_fill_mean vin_row) = ''Level 2''"
proof -
  have unk: "Str ''vin '' \<notin> set (map lemme gappy_corpus)"
    by (simp add: sample_rows)
  have feat: "avg_freq (prepare_row gappy_corpus ''vin '') = NaN"
    by (simp add: prepare_defs sample_rows)
  have "predict_levels (sample_files gappy_corpus) gappy_corpus [''vin '']
      = resolve_all sample_pipeline sample_encoder gappy_corpus (Fin (331 / 10)) (Fin (281 / 5))
          [''vin '']"
    by (rule predict_levels_loaded[OF _ _ gappy_corpus_thresholds])
       (simp_all add: sample_files_def)
  also have "\<dots> = Inr [''Level 3'']"
    by (simp add: resolve_word_unknown[OF unk] feat fallback_level_def)
  finally have run: "predict_levels (sample_files gappy_corpus) gappy_corpus [''vin '']
      = Inr [''Level 3'']" .
  have "zero_fill_mean vin_row = Fin 40"
    by (simp add: zero_fill_mean_def vin_row_def)
  then show ?thesis
    using unk feat run gappy_corpus_thresholds
    by (simp add: fallback_level_def strip_def rstrip_def vin_row_def)
qed

section \<open>Unknown words\<close>

text \<open>
  C6: for a word whose trimmed form matches no lemma of the corpus, the feature row
  holds the trimmed word, the category \<open>unknown\<close>, the gender \<open>none\<close>, and as average
  frequency the mean, over the records that have a measure, of the mean of the
  measures each record has.
\<close>

theorem unknown_word_feature:
  assumes "Str (strip w) \<notin> set (map lemme df)"
  shows "prepare_row df w =
     \<lparr>in_lemme = Str (strip w), in_cgram = Str ''unknown'', in_genre = Str ''none'',
      avg_freq = skip_aware_global_mean df\<rparr>"
  by (simp add: prepare_row_def Let_def filter_lemme_empty[OF assms] avg_global_skip)

text \<open>On the corpus with a gap the record \<open>vin\<close> counts with its only measure, 80, and
  the mean over the two records is 45; the word is typed with a space before it and
  the character U+3000 after it.\<close>

theorem unknown_word_feature_witness:
  "Str (strip ('' xyzzy123'' @ [CHR 0xE3, CHR 0x80, CHR 0x80])) \<notin> set (map lemme gappy_corpus)
   \<and> skip_aware_global_mean gappy_corpus = Fin 45
   \<and> prepare_row gappy_corpus ('' xyzzy123'' @ [CHR 0xE3, CHR 0x80, CHR 0x80]) =
       \<lparr>in_lemme = Str ''xyzzy123'', in_cgram = Str ''unknown'', in_genre = Str ''none'',
        avg_freq = Fin 45\<rparr>"
proof -
  have tr: "strip ('' xyzzy123'' @ [CHR 0xE3, CHR 0x80, CHR 0x80]) = ''xyzzy123''"
    by (simp add: strip_def rstrip_def)
  have unk: "Str (strip ('' xyzzy123'' @ [CHR 0xE3, CHR 0x80, CHR 0x80]))
      \<notin> set (map lemme gappy_corpus)"
    unfolding tr by (simp add: sample_rows)
  have "skip_aware_global_mean gappy_corpus = Fin 45"
    by (simp add: skip_aware_global_mean_def record_mean_skip_def sample_rows)
  then show ?thesis using unknown_word_feature[OF unk] unk tr by simp
qed

text \<open>Trimming on other words: the no-break space U+00A0 and the narrow no-break
  space U+202F are removed, the zero width space U+200B is not whitespace; a known word
  followed by a no-break space is looked up as the known word.\<close>

lemma strip_examples:
  "strip ('' chat'' @ [CHR 0xC2, CHR 0xA0]) = ''chat''"
  "strip ([CHR 0xE3, CHR 0x80, CHR 0x80] @ ''xyzzy123'' @ [CHR 0xE2, CHR 0x80, CHR 0xAF, CHR 0x0A])
     = ''xyzzy123''"
  "strip ''vin '' = ''vin''"
  "strip ''a b'' = ''a b''"
  "strip [CHR 0xE2, CHR 0x80, CHR 0x8B] = [CHR 0xE2, CHR 0x80, CHR 0x8B]"
  by (simp_all add: strip_def rstrip_def)

lemma nbsp_word_is_known:
  "prepare_row sample_corpus (''chat'' @ [CHR 0xC2, CHR 0xA0]) =
     \<lparr>in_lemme = Str ''chat'', in_cgram = Str ''NOM'', in_genre = Str ''m'',
      avg_freq = Fin 100\<rparr>"
  by (simp add: prepare_defs sample_rows)

section \<open>The thresholds are ordered\<close>

text \<open>Within the range of doubles, on numbers that are not negative, the
  interpolation of numpy is the exact one, and sorting is the sorting of the numbers.\<close>

lemma overflow_bound_large: "10 ^ 308 < overflow_bound"
  by (simp add: overflow_bound_def)

lemma overflow_bound_pos: "0 < overflow_bound"
  using overflow_bound_large by (smt (verit) zero_less_power)

lemma to_f64_Finite:
  "- overflow_bound < x \<Longrightarrow> x < overflow_bound \<Longrightarrow> to_f64 x = Finite x"
  by (simp add: to_f64_def)

lemma in_range64_to_f64: "in_range64 (to_f64 x)"
  by (simp add: to_f64_def)

lemma in_range64_of_cell: "in_range64 (of_cell c)"
  by (cases c) (simp_all add: in_range64_to_f64)

lemma in_range64_add64: "in_range64 x \<Longrightarrow> in_range64 y \<Longrightarrow> in_range64 (add64 x y)"
  by (cases x; cases y) (simp_all add: in_range64_to_f64)

lemma in_range64_div64: "in_range64 x \<Longrightarrow> in_range64 (div64 x n)"
  by (cases x) (simp_all add: in_range64_to_f64)

lemma in_range64_foldl:
  "in_range64 acc \<Longrightarrow> \<forall>v\<in>set vs. in_range64 v \<Longrightarrow> in_range64 (foldl add64 acc vs)"
  by (induction vs arbitrary: acc) (simp_all add: in_range64_add64)

lemma set_present64: "set (present64 xs) \<subseteq> set xs"
  by (induction xs rule: present64.induct) auto

lemma in_range64_mean_skipna64:
  assumes "\<forall>v\<in>set xs. in_range64 v"
  shows "in_range64 (mean_skipna64 xs)"
proof -
  have "\<forall>v\<in>set (present64 xs). in_range64 v"
    using assms set_present64[of xs] by blast
  then have "in_range64 (foldl add64 (Finite 0) (present64 xs))"
    by (intro in_range64_foldl) (simp_all add: overflow_bound_pos)
  then show ?thesis
    by (simp add: mean_skipna64_def Let_def in_range64_div64)
qed

lemma in_range64_fillna64: "in_range64 x \<Longrightarrow> in_range64 (fillna64 x)"
  by (cases x) (simp_all add: overflow_bound_pos)

lemma in_range64_freq_series64: "v \<in> set (freq_series64 df) \<Longrightarrow> in_range64 v"
  by (auto simp: freq_series64_def intro!: in_range64_fillna64 in_range64_mean_skipna64
      in_range64_of_cell)

lemma lerp64_Finite:
  assumes "0 \<le> a" "a \<le> b" "b < overflow_bound" "0 \<le> t" "t \<le> 1"
  shows "lerp64 (Finite a) (Finite b) t = Finite (a + (b - a) * t)"
proof -
  have B: "0 < overflow_bound" by (rule overflow_bound_pos)
  have d: "0 \<le> b - a" "b - a < overflow_bound" using assms by simp_all
  have diff: "sub64 (Finite b) (Finite a) = Finite (b - a)"
    using d B by (simp add: sub64_def to_f64_Finite)
  have m1: "0 \<le> (b - a) * t" "(b - a) * t \<le> b - a"
    using d assms by (simp_all add: mult_left_le)
  have m2: "0 \<le> (b - a) * (1 - t)" "(b - a) * (1 - t) \<le> b - a"
    using d assms by (simp_all add: mult_left_le)
  show ?thesis
  proof (cases "t < 1 / 2")
    case True
    have "mul64 (Finite (b - a)) t = Finite ((b - a) * t)"
      using m1 d B by (simp add: to_f64_Finite)
    moreover have "- overflow_bound < a + (b - a) * t" "a + (b - a) * t < overflow_bound"
      using m1 assms B by linarith+
    then have "add64 (Finite a) (Finite ((b - a) * t)) = Finite (a + (b - a) * t)"
      by (simp add: to_f64_Finite)
    ultimately show ?thesis using True by (simp add: lerp64_def diff)
  next
    case False
    have "mul64 (Finite (b - a)) (1 - t) = Finite ((b - a) * (1 - t))"
      using m2 d B by (simp add: to_f64_Finite)
    moreover have "- overflow_bound < b - (b - a) * (1 - t)"
      "b - (b - a) * (1 - t) < overflow_bound"
      using m2 assms B by linarith+
    then have "sub64 (Finite b) (Finite ((b - a) * (1 - t))) = Finite (b - (b - a) * (1 - t))"
      by (simp add: sub64_def to_f64_Finite)
    moreover have "b - (b - a) * (1 - t) = a + (b - a) * t"
      by (simp add: algebra_simps)
    ultimately show ?thesis using False by (simp add: lerp64_def diff)
  qed
qed

lemma insert64_Finite: "insert64 (Finite x) (map Finite ys) = map Finite (insort x ys)"
  by (induction ys) simp_all

lemma sort64_Finite: "sort64 (map Finite xs) = map Finite (sort xs)"
  by (induction xs) (simp_all add: insert64_Finite)

lemma nonneg64_list:
  assumes "\<forall>v\<in>set vs. nonneg64 v"
  shows "\<exists>xs. vs = map Finite xs \<and> (\<forall>x\<in>set xs. 0 \<le> x)"
  using assms
proof (induction vs)
  case Nil
  then show ?case by simp
next
  case (Cons v vs)
  then obtain xs where xs: "vs = map Finite xs" "\<forall>x\<in>set xs. 0 \<le> x" by auto
  from Cons.prems obtain a where "v = Finite a" "0 \<le> a" by (cases v) auto
  then have "v # vs = map Finite (a # xs) \<and> (\<forall>x\<in>set (a # xs). 0 \<le> x)"
    using xs by simp
  then show ?case by (intro exI[of _ "a # xs"])
qed

lemma np_percentile64_Finite:
  assumes ne: "xs \<noteq> []" and nn: "\<forall>x\<in>set xs. 0 \<le> x \<and> x < overflow_bound"
    and q: "0 \<le> q" "q \<le> 100"
  shows "np_percentile64 (map Finite xs) q
       = Inr (Finite (interpolate (sort xs) (real (length xs - 1) * (q / 100))))"
proof -
  define s where "s = sort xs"
  define h where "h = real (length xs - 1) * (q / 100)"
  define lo where "lo = nat \<lfloor>h\<rfloor>"
  define hi where "hi = min (lo + 1) (length xs - 1)"
  have len: "length s = length xs" and srt: "sorted s" and set_s: "set s = set xs"
    unfolding s_def by simp_all
  have h0: "0 \<le> h" unfolding h_def using q by simp
  have "q / 100 \<le> 1" using q by simp
  then have h1: "h \<le> real (length xs - 1)"
    unfolding h_def by (intro mult_left_le) simp_all
  have lo_le: "real lo \<le> h" unfolding lo_def using h0 by linarith
  have g1: "h - real lo \<le> 1" unfolding lo_def using h0 by linarith
  have pos: "0 < length xs" using ne by simp
  have "lo \<le> length xs - 1" using lo_le h1 by linarith
  then have bounds: "lo \<le> hi" "hi < length xs" "lo < length xs"
    using pos unfolding hi_def by (auto simp: min_def simp del: length_greater_0_conv)
  then have ord: "s ! lo \<le> s ! hi"
    using srt len by (simp add: sorted_nth_mono)
  have mem: "s ! lo \<in> set xs" "s ! hi \<in> set xs"
    using bounds len set_s nth_mem by metis+
  have "lerp64 (Finite (s ! lo)) (Finite (s ! hi)) (h - real lo)
      = Finite (s ! lo + (s ! hi - s ! lo) * (h - real lo))"
    using mem nn ord lo_le g1 by (intro lerp64_Finite) auto
  moreover have "sort64 (map Finite xs) ! lo = Finite (s ! lo)"
    "sort64 (map Finite xs) ! hi = Finite (s ! hi)"
    using bounds len by (simp_all add: sort64_Finite s_def)
  moreover have "Nan64 \<notin> set (map Finite xs)" by auto
  ultimately show ?thesis
    using ne
    unfolding np_percentile64_def interpolate_def Let_def
    by (simp add: hi_def lo_def h_def s_def)
qed

lemma sample_series64: "freq_series64 sample_corpus = [Finite 100, Finite 10]"
  by (simp add: freq_series64_def mean_skipna64_def sample_rows to_f64_def overflow_bound_def)

lemma big_row_series: "freq_series64 [big_row] = [PosInf]"
  by (simp add: freq_series64_def mean_skipna64_def big_row_def to_f64_def overflow_bound_def)

lemma mixed_sign_series:
  "freq_series64 [low_row, high_row] = [Finite (- (15 * 10 ^ 307)), Finite (15 * 10 ^ 307)]"
  by (simp add: freq_series64_def mean_skipna64_def low_row_def high_row_def to_f64_def
      overflow_bound_def)

text \<open>
  C7 (as amended): for any corpus with at least one record whose per-record means, as
  the program computes them in doubles, are numbers that are not negative (none is
  infinite), the thresholds are numbers and \<open>q1 \<le> q2\<close>.
\<close>

theorem thresholds64_ordered:
  assumes "df \<noteq> []" and "\<forall>v\<in>set (freq_series64 df). nonneg64 v"
  shows "\<exists>a b. thresholds64 df = Inr (Finite a, Finite b) \<and> a \<le> b
     \<and> le64 (Finite a) (Finite b)"
proof -
  obtain xs where xs: "freq_series64 df = map Finite xs" "\<forall>x\<in>set xs. 0 \<le> x"
    using nonneg64_list[OF assms(2)] by blast
  have ne: "xs \<noteq> []" using assms(1) xs(1) by (auto simp: freq_series64_def)
  have rng: "\<forall>x\<in>set xs. 0 \<le> x \<and> x < overflow_bound"
  proof
    fix x assume x: "x \<in> set xs"
    then have "Finite x \<in> set (freq_series64 df)" using xs(1) by simp
    then have "in_range64 (Finite x)" by (rule in_range64_freq_series64)
    then show "0 \<le> x \<and> x < overflow_bound" using xs(2) x by simp
  qed
  define s where "s = sort xs"
  have s: "sorted s" "length s = length xs"
    unfolding s_def by simp_all
  then have sne: "s \<noteq> []" using ne by auto
  have "interpolate s (real (length xs - 1) * (33 / 100))
      \<le> interpolate s (real (length xs - 1) * (66 / 100))"
    by (rule interpolate_mono[OF s(1) _ _ _ sne]) (simp_all add: s(2) mult_left_le)
  then show ?thesis
    unfolding thresholds64_def xs(1)
    by (simp add: np_percentile64_Finite[OF ne rng] s_def)
qed

text \<open>On the sample corpus the means are 100 and 10, and the thresholds are 39.7 and
  69.4.\<close>

theorem thresholds64_ordered_witness:
  "sample_corpus \<noteq> []
   \<and> freq_series64 sample_corpus = [Finite 100, Finite 10]
   \<and> nonneg64 (Finite 100) \<and> nonneg64 (Finite 10)
   \<and> thresholds64 sample_corpus = Inr (Finite (397 / 10), Finite (347 / 5))
   \<and> le64 (Finite (397 / 10)) (Finite (347 / 5))"
proof -
  have ne: "sample_corpus \<noteq> []" by (simp add: sample_corpus_def)
  have nn: "\<forall>v\<in>set (freq_series64 sample_corpus). nonneg64 v"
    by (simp add: sample_series64)
  have "thresholds64 sample_corpus = Inr (Finite (397 / 10), Finite (347 / 5))"
    by (simp add: thresholds64_def np_percentile64_def sample_series64 lerp64_def sub64_def
        to_f64_def overflow_bound_def)
  then show ?thesis
    using thresholds64_ordered[OF ne nn] ne sample_series64 by simp
qed

text \<open>
  As first stated the claim holds of any corpus. The two measures of the record \<open>or\<close>
  are the double 1.5e308: their sum is beyond the range, the mean of the record is
  infinite, the interpolation takes the difference of two infinities, and both
  thresholds are NaN, for which \<open>q1 \<le> q2\<close> is false.
\<close>

theorem thresholds64_overflow_counterexample:
  "freq_series64 [big_row] = [PosInf]
   \<and> thresholds64 [big_row] = Inr (Nan64, Nan64)
   \<and> \<not> le64 Nan64 Nan64"
  by (simp add: big_row_series thresholds64_def np_percentile64_def lerp64_def sub64_def)

text \<open>Measures of opposite signs are left out of the amended claim for the same
  reason: the difference of the two means below is beyond the range, and the thresholds
  come out as plus infinity and minus infinity, in the wrong order.\<close>

lemma thresholds64_mixed_sign:
  "thresholds64 [low_row, high_row] = Inr (PosInf, NegInf) \<and> \<not> le64 PosInf NegInf"
  by (simp add: thresholds64_def np_percentile64_def mixed_sign_series lerp64_def sub64_def
      to_f64_def overflow_bound_def)

text \<open>Where the measures and their sums stay within the range and the means are not
  negative, the thresholds with the range of doubles are the thresholds over the
  reals.\<close>

lemma row_mean64_agrees:
  assumes "\<And>a. freqlemfilms2 r = Fin a \<Longrightarrow> \<bar>a\<bar> < overflow_bound"
    and "\<And>b. freqlemlivres r = Fin b \<Longrightarrow> \<bar>b\<bar> < overflow_bound"
    and "\<And>a b. freqlemfilms2 r = Fin a \<Longrightarrow> freqlemlivres r = Fin b \<Longrightarrow> \<bar>a + b\<bar> < overflow_bound"
  shows "fillna64 (mean_skipna64 [of_cell (freqlemfilms2 r), of_cell (freqlemlivres r)])
       = of_cell (fillna0 (mean_skipna [freqlemfilms2 r, freqlemlivres r]))"
proof (cases "freqlemfilms2 r")
  case NaN
  show ?thesis
  proof (cases "freqlemlivres r")
    case NaN
    then show ?thesis using \<open>freqlemfilms2 r = NaN\<close> overflow_bound_pos
      by (simp add: mean_skipna64_def mean_skipna_def to_f64_Finite)
  next
    case (Fin b)
    then show ?thesis using \<open>freqlemfilms2 r = NaN\<close> assms(2)[OF Fin]
      by (simp add: mean_skipna64_def mean_skipna_def to_f64_Finite)
  qed
next
  case (Fin a)
  note a = assms(1)[OF Fin]
  show ?thesis
  proof (cases "freqlemlivres r")
    case NaN
    then show ?thesis using Fin a
      by (simp add: mean_skipna64_def mean_skipna_def to_f64_Finite)
  next
    case (Fin b)
    have ab: "\<bar>a + b\<bar> < overflow_bound" using assms(3)[OF \<open>freqlemfilms2 r = Fin a\<close> Fin] .
    then have h: "\<bar>(a + b) / 2\<bar> < overflow_bound" by simp
    show ?thesis using Fin \<open>freqlemfilms2 r = Fin a\<close> a assms(2)[OF Fin] ab h
      by (simp add: mean_skipna64_def mean_skipna_def to_f64_Finite)
  qed
qed

lemma freq_series64_agrees:
  assumes "\<forall>r\<in>set df. within_range r"
  shows "freq_series64 df = map of_cell (freq_series df)"
proof -
  have "fillna64 (mean_skipna64 [of_cell (freqlemfilms2 r), of_cell (freqlemlivres r)])
       = of_cell (fillna0 (mean_skipna [freqlemfilms2 r, freqlemlivres r]))"
    if "r \<in> set df" for r
  proof (rule row_mean64_agrees)
    have w: "within_range r" using assms that by blast
    show "\<bar>a\<bar> < overflow_bound" if "freqlemfilms2 r = Fin a" for a
      using w that by (cases "freqlemlivres r") (simp_all add: within_range_def)
    show "\<bar>b\<bar> < overflow_bound" if "freqlemlivres r = Fin b" for b
      using w that by (cases "freqlemfilms2 r") (simp_all add: within_range_def)
    show "\<bar>a + b\<bar> < overflow_bound" if "freqlemfilms2 r = Fin a" "freqlemlivres r = Fin b" for a b
      using w that by (simp add: within_range_def)
  qed
  then show ?thesis
    by (simp add: freq_series64_def freq_series_def row_means_def)
qed

lemma map_Fin_present: "NaN \<notin> set xs \<Longrightarrow> map Fin (present xs) = xs"
  by (induction xs rule: present.induct) auto

lemma thresholds64_agrees:
  assumes ne: "df \<noteq> []" and wr: "\<forall>r\<in>set df. within_range r"
    and nn: "\<forall>v\<in>set (freq_series64 df). nonneg64 v"
  shows "\<exists>a b. thresholds df = Inr (Fin a, Fin b) \<and> thresholds64 df = Inr (Finite a, Finite b)"
proof -
  define ys where "ys = present (freq_series df)"
  have fs: "freq_series df = map Fin ys"
    unfolding ys_def by (simp add: map_Fin_present freq_series_no_NaN)
  have f64: "freq_series64 df = map (\<lambda>y. to_f64 y) ys"
    using freq_series64_agrees[OF wr] by (simp add: fs)
  have fin: "to_f64 y = Finite y \<and> 0 \<le> y \<and> y < overflow_bound" if "y \<in> set ys" for y
  proof -
    have "to_f64 y \<in> set (freq_series64 df)" using that f64 by simp
    then have "nonneg64 (to_f64 y)" using nn by blast
    then show ?thesis
      by (auto simp: to_f64_def split: if_splits)
  qed
  then have f64': "freq_series64 df = map Finite ys"
    using f64 by simp
  have yne: "ys \<noteq> []" using ne fs by (auto simp: freq_series_def row_means_def)
  have rng: "\<forall>x\<in>set ys. 0 \<le> x \<and> x < overflow_bound" using fin by blast
  have len: "length (freq_series df) = length ys" by (simp add: fs)
  have nonan: "NaN \<notin> set (freq_series df)" by (rule freq_series_no_NaN)
  define a where "a = interpolate (sort ys) (real (length ys - 1) * (33 / 100))"
  define b where "b = interpolate (sort ys) (real (length ys - 1) * (66 / 100))"
  have ideal: "np_percentile (freq_series df) q
      = Inr (Fin (interpolate (sort ys) (real (length ys - 1) * (q / 100))))" for q
    using yne nonan unfolding np_percentile_def len ys_def[symmetric]
    by (simp add: fs)
  have "thresholds df = Inr (Fin a, Fin b)"
    unfolding thresholds_def ideal a_def b_def by simp
  moreover have "thresholds64 df = Inr (Finite a, Finite b)"
    unfolding thresholds64_def f64' a_def b_def
    by (simp add: np_percentile64_Finite[OF yne rng, of 33]
        np_percentile64_Finite[OF yne rng, of 66])
  ultimately show ?thesis by blast
qed

text \<open>Records with measures that are not negative, within the range, have such
  means.\<close>

lemma nonneg_means:
  assumes "\<forall>r\<in>set df. within_range r
      \<and> (\<forall>a. freqlemfilms2 r = Fin a \<longrightarrow> 0 \<le> a) \<and> (\<forall>b. freqlemlivres r = Fin b \<longrightarrow> 0 \<le> b)"
  shows "\<forall>v\<in>set (freq_series64 df). nonneg64 v"
proof -
  have wr: "\<forall>r\<in>set df. within_range r" using assms by blast
  have "nonneg64 (of_cell (fillna0 (mean_skipna [freqlemfilms2 r, freqlemlivres r])))"
    if r: "r \<in> set df" for r
  proof -
    have w: "within_range r" and f: "\<And>a. freqlemfilms2 r = Fin a \<Longrightarrow> 0 \<le> a"
      and l: "\<And>b. freqlemlivres r = Fin b \<Longrightarrow> 0 \<le> b"
      using assms r by blast+
    show ?thesis
    proof (cases "freqlemfilms2 r"; cases "freqlemlivres r")
      fix a b assume "freqlemfilms2 r = Fin a" "freqlemlivres r = Fin b"
      then show ?thesis using w f[of a] l[of b]
        by (simp add: mean_skipna_def within_range_def to_f64_Finite)
    next
      fix a assume "freqlemfilms2 r = Fin a" "freqlemlivres r = NaN"
      then show ?thesis using w f[of a]
        by (simp add: mean_skipna_def within_range_def to_f64_Finite)
    next
      fix b assume "freqlemfilms2 r = NaN" "freqlemlivres r = Fin b"
      then show ?thesis using w l[of b]
        by (simp add: mean_skipna_def within_range_def to_f64_Finite)
    next
      assume "freqlemfilms2 r = NaN" "freqlemlivres r = NaN"
      then show ?thesis using overflow_bound_pos
        by (simp add: mean_skipna_def to_f64_Finite)
    qed
  qed
  then show ?thesis
    unfolding freq_series64_agrees[OF wr] by (simp add: freq_series_def row_means_def)
qed

section \<open>The gender of the feature row\<close>

text \<open>
  C8: the claim gives the gender of the feature row as \<open>none\<close> when the word is unknown
  or the record has no gender, and as the record's gender otherwise. The program does
  so for an unknown word, a table without the column, an empty string and a gender
  that is there (\<open>known_genre_cases\<close>), but an empty cell of
  the file is NaN, which is truthy: for \<open>aller\<close> the gender of the feature row is NaN,
  not \<open>none\<close>.
\<close>

theorem known_word_missing_gender:
  "genre aller_row = Some SNaN
   \<and> in_genre (prepare_row [aller_row] ''aller'') = SNaN
   \<and> SNaN \<noteq> Str ''none''"
  by (simp add: prepare_defs aller_row_def)

section \<open>The process as a whole\<close>

lemma main_stdout_cases:
  "stdout (main fs ws) = [] \<or> ws = [] \<and> stdout (main fs ws) = [print_usage]
   \<or> (\<exists>preds. length preds = length ws \<and> exit_code (main fs ws) = 0
        \<and> stdout (main fs ws) = map (\<lambda>(word, level). word @ '' -> '' @ level) (zip ws preds))"
proof (cases "corpus_file fs")
  case None
  then show ?thesis by (simp add: main_def exit_with_def)
next
  case (Some df)
  show ?thesis
  proof (cases "ws = []")
    case True
    then show ?thesis using Some by (simp add: main_def exit_with_def)
  next
    case False
    show ?thesis
    proof (cases "predict_levels fs df ws")
      case (Inl e)
      then show ?thesis using Some False by (simp add: main_def exit_with_def)
    next
      case (Inr preds)
      then show ?thesis using Some False predict_levels_length[OF Inr]
        by (auto simp: main_def exit_with_def)
    qed
  qed
qed

text \<open>
  C9: when the pipeline or the encoder cannot be loaded, \<open>predict_levels\<close> stops with
  the exit message whatever the corpus and the words are, the process ends with code 1
  and prints no prediction; and in every run the process prints either no prediction
  at all, or one line for each word.
\<close>

theorem load_failure_is_all_or_nothing:
  "(model_file fs = None \<or> encoder_file fs = None \<longrightarrow>
       (\<exists>m. \<forall>df ws'. predict_levels fs df ws' = Inl (SystemExit_msg m))
     \<and> exit_code (main fs ws) = 1
     \<and> (stdout (main fs ws) = [] \<or> ws = [] \<and> stdout (main fs ws) = [print_usage]))
   \<and> (stdout (main fs ws) = [] \<or> ws = [] \<and> stdout (main fs ws) = [print_usage]
      \<or> (\<exists>preds. length preds = length ws \<and> exit_code (main fs ws) = 0
           \<and> stdout (main fs ws) = map (\<lambda>(word, level). word @ '' -> '' @ level) (zip ws preds)))"
proof (intro conjI impI)
  assume fail: "model_file fs = None \<or> encoder_file fs = None"
  show ex: "\<exists>m. \<forall>df ws'. predict_levels fs df ws' = Inl (SystemExit_msg m)"
    using predict_levels_load_failure[OF fail] .
  then obtain m where m: "\<And>df ws'. predict_levels fs df ws' = Inl (SystemExit_msg m)"
    by blast
  show "exit_code (main fs ws) = 1"
    by (cases "corpus_file fs") (simp_all add: main_def exit_with_def m)
  show "stdout (main fs ws) = [] \<or> ws = [] \<and> stdout (main fs ws) = [print_usage]"
    by (cases "corpus_file fs") (simp_all add: main_def exit_with_def m)
next
  show "stdout (main fs ws) = [] \<or> ws = [] \<and> stdout (main fs ws) = [print_usage]
      \<or> (\<exists>preds. length preds = length ws \<and> exit_code (main fs ws) = 0
           \<and> stdout (main fs ws) = map (\<lambda>(word, level). word @ '' -> '' @ level) (zip ws preds))"
    by (rule main_stdout_cases)
qed

theorem load_failure_is_all_or_nothing_witness:
  "model_file (files_without_model sample_corpus) = None
   \<and> exit_code (main (files_without_model sample_corpus) [''chat'', ''xyzzy123'']) = 1
   \<and> stdout (main (files_without_model sample_corpus) [''chat'', ''xyzzy123'']) = []"
proof -
  have "model_file (files_without_model sample_corpus) = None"
    by (simp add: files_without_model_def)
  then show ?thesis
    using load_failure_is_all_or_nothing
      [of "files_without_model sample_corpus" "[''chat'', ''xyzzy123'']"]
    by simp
qed

text \<open>Well-formed and ill-formed byte sequences: a lone byte FF and an encoded
  surrogate are refused.\<close>

lemma wf_examples:
  "well_formed ''chat''"
  "well_formed ('' xyzzy123'' @ [CHR 0xE3, CHR 0x80, CHR 0x80])"
  "\<not> well_formed [CHR 0xFF]"
  "\<not> well_formed [CHR 0xED, CHR 0xB3, CHR 0xBF]"
  "well_formed [CHR 0xF0, CHR 0x9F, CHR 0x98, CHR 0x80]"
  by (simp_all add: seq2_def seq3_def seq4_def cont_def)




end
